theory Spec2Isabelle
  imports Main "HOL-Library.Word"
begin

section \<open>Data model\<close>

text \<open>
  The two contracts of \<^verbatim>\<open>packages/contracts/contracts\<close>:
  \<^verbatim>\<open>QXMPAssetRegistry.sol\<close> (the Asset Registry) and
  \<^verbatim>\<open>QXMPProofOfReserve.sol\<close> (the Attestation Submission Coordinator).
  Solidity's \<^verbatim>\<open>bytes32\<close> and \<^verbatim>\<open>uint256\<close> are 256-bit words, an
  \<^verbatim>\<open>address\<close> is a 160-bit word, \<^verbatim>\<open>address(0)\<close> is the word 0.
\<close>

type_synonym bytes32 = "256 word"
type_synonym uint256 = "256 word"
type_synonym address = "160 word"

text \<open>
  A failed \<^verbatim>\<open>require\<close> reverts the call. Each constructor stands for the
  revert reasons of the source, under the name the specification gives the failure:
  \<^item> \<open>Unauthorized\<close>: "Only owner can call this function" (both contracts);
  \<^item> \<open>NotFound\<close>: "Asset does not exist or is inactive";
  \<^item> \<open>AlreadyExists\<close>: "Asset already registered";
  \<^item> \<open>InvalidValue\<close>: "Asset value must be greater than 0";
  \<^item> \<open>InvalidHolder\<close>: "Invalid holder address", "Invalid new owner address"
    (a zero identity);
  \<^item> \<open>InvalidReference\<close>: "Invalid registry address";
  \<^item> \<open>IndexOutOfRange\<close>: "Index out of bounds";
  \<^item> \<open>InvalidOracleValue\<close>: "Invalid oracle value";
  \<^item> \<open>AttestationFailed\<close>: any revert of the RedStone base contract's
    \<^verbatim>\<open>getOracleNumericValueFromTxMsg\<close>;
  \<^item> \<open>NoContract\<close>: an external call to an address that holds no registry.
\<close>

datatype error =
    Unauthorized
  | NotFound
  | AlreadyExists
  | InvalidValue
  | InvalidHolder
  | InvalidReference
  | IndexOutOfRange
  | InvalidOracleValue
  | AttestationFailed
  | NoContract

record Asset =
  assetCode :: bytes32
  assetName :: string
  reportingStandard :: string
  jurisdiction :: string
  assetValueUsd :: uint256
  mineralResourcesMt :: uint256
  goldOzInSitu :: uint256
  reportHash :: bytes32
  lastUpdated :: uint256
  holder :: address
  isActive :: bool

text \<open>
  The registry's storage. A Solidity mapping is total: a key never written reads as the
  all-zero struct (\<open>emptyAsset\<close>), so "no record" is a record with
  \<open>isActive = False\<close>. The dynamic array \<^verbatim>\<open>assetCodes\<close> is a list; its
  length is a natural number (a storage array cannot hold \<open>2 ^ 256\<close> elements).
\<close>

record Registry =
  assets :: "bytes32 \<Rightarrow> Asset"
  assetCodes :: "bytes32 list"
  owner :: address

definition emptyAsset :: Asset where
  "emptyAsset =
     \<lparr>assetCode = 0, assetName = [], reportingStandard = [], jurisdiction = [],
      assetValueUsd = 0, mineralResourcesMt = 0, goldOzInSitu = 0, reportHash = 0,
      lastUpdated = 0, holder = 0, isActive = False\<rparr>"

text \<open>
  A call either returns (\<open>Inr\<close>) or reverts (\<open>Inl\<close>). A revert undoes every
  write of the transaction: the state after a call is the returned state, or the state
  before the call when the call reverted.
\<close>

definition state_after :: "'s \<Rightarrow> error + 's \<Rightarrow> 's" where
  "state_after s res = (case res of Inl e \<Rightarrow> s | Inr s' \<Rightarrow> s')"

section \<open>QXMPAssetRegistry\<close>

text \<open>
  Every function takes \<^verbatim>\<open>msg.sender\<close> (\<open>sender\<close>) and, where the source
  reads it, \<^verbatim>\<open>block.timestamp\<close> (\<open>now\<close>) as arguments. Events change no
  state and are not modelled.
\<close>

definition onlyOwner :: "address \<Rightarrow> Registry \<Rightarrow> error + 'a \<Rightarrow> error + 'a" where
  "onlyOwner sender r body = (if sender = owner r then body else Inl Unauthorized)"

definition assetExists :: "Registry \<Rightarrow> bytes32 \<Rightarrow> error + 'a \<Rightarrow> error + 'a" where
  "assetExists r code body = (if isActive (assets r code) then body else Inl NotFound)"

definition constructor :: "address \<Rightarrow> Registry" where
  "constructor sender = \<lparr>assets = (\<lambda>c. emptyAsset), assetCodes = [], owner = sender\<rparr>"

definition registerAsset ::
  "address \<Rightarrow> uint256 \<Rightarrow> bytes32 \<Rightarrow> string \<Rightarrow> string \<Rightarrow> string \<Rightarrow> uint256 \<Rightarrow> uint256 \<Rightarrow>
   uint256 \<Rightarrow> bytes32 \<Rightarrow> address \<Rightarrow> Registry \<Rightarrow> error + Registry" where
  "registerAsset sender now code name std jur val res gold hash holderAddress r =
     onlyOwner sender r
       (if isActive (assets r code) then Inl AlreadyExists
        else if \<not> 0 < val then Inl InvalidValue
        else if holderAddress = 0 then Inl InvalidHolder
        else Inr (r\<lparr>assets := (assets r)(code :=
                      \<lparr>assetCode = code, assetName = name, reportingStandard = std,
                       jurisdiction = jur, assetValueUsd = val, mineralResourcesMt = res,
                       goldOzInSitu = gold, reportHash = hash, lastUpdated = now,
                       holder = holderAddress, isActive = True\<rparr>),
                    assetCodes := assetCodes r @ [code]\<rparr>))"

definition updateAssetValue ::
  "address \<Rightarrow> uint256 \<Rightarrow> bytes32 \<Rightarrow> uint256 \<Rightarrow> Registry \<Rightarrow> error + Registry" where
  "updateAssetValue sender now code newValueUsd r =
     onlyOwner sender r
       (assetExists r code
          (if \<not> 0 < newValueUsd then Inl InvalidValue
           else Inr (r\<lparr>assets := (assets r)(code :=
                         (assets r code)\<lparr>assetValueUsd := newValueUsd,
                                          lastUpdated := now\<rparr>)\<rparr>)))"

definition deactivateAsset :: "address \<Rightarrow> bytes32 \<Rightarrow> Registry \<Rightarrow> error + Registry" where
  "deactivateAsset sender code r =
     onlyOwner sender r
       (assetExists r code
          (Inr (r\<lparr>assets := (assets r)(code := (assets r code)\<lparr>isActive := False\<rparr>)\<rparr>)))"

definition getAsset :: "Registry \<Rightarrow> bytes32 \<Rightarrow> error + Asset" where
  "getAsset r code = assetExists r code (Inr (assets r code))"

definition verifyReportHash :: "Registry \<Rightarrow> bytes32 \<Rightarrow> bytes32 \<Rightarrow> error + bool" where
  "verifyReportHash r code hash =
     assetExists r code (Inr (reportHash (assets r code) = hash))"

definition getAssetCount :: "Registry \<Rightarrow> nat" where
  "getAssetCount r = length (assetCodes r)"

definition getAssetCodeByIndex :: "Registry \<Rightarrow> uint256 \<Rightarrow> error + bytes32" where
  "getAssetCodeByIndex r index =
     (if unat index < length (assetCodes r) then Inr (assetCodes r ! unat index)
      else Inl IndexOutOfRange)"

definition transferOwnership :: "address \<Rightarrow> address \<Rightarrow> Registry \<Rightarrow> error + Registry" where
  "transferOwnership sender newOwner r =
     onlyOwner sender r
       (if newOwner = 0 then Inl InvalidHolder else Inr (r\<lparr>owner := newOwner\<rparr>))"

text \<open>
  The mutating external functions of the registry, as the transactions an account can
  send to it, and the effect of a sequence of transactions: a reverted transaction
  leaves the state as it was.
\<close>

datatype call =
    RegisterAsset bytes32 string string string uint256 uint256 uint256 bytes32 address
  | UpdateAssetValue bytes32 uint256
  | DeactivateAsset bytes32
  | TransferOwnership address

fun exec :: "address \<Rightarrow> uint256 \<Rightarrow> call \<Rightarrow> Registry \<Rightarrow> error + Registry" where
  "exec sender now (RegisterAsset code name std jur val res gold hash holderAddress) r =
     registerAsset sender now code name std jur val res gold hash holderAddress r"
| "exec sender now (UpdateAssetValue code newValueUsd) r =
     updateAssetValue sender now code newValueUsd r"
| "exec sender now (DeactivateAsset code) r = deactivateAsset sender code r"
| "exec sender now (TransferOwnership newOwner) r = transferOwnership sender newOwner r"

fun run :: "(address \<times> uint256 \<times> call) list \<Rightarrow> Registry \<Rightarrow> Registry" where
  "run [] r = r"
| "run ((sender, now, c) # txs) r = run txs (state_after r (exec sender now c r))"

text \<open>Whether a call is a registration of the given code.\<close>

fun registers :: "bytes32 \<Rightarrow> call \<Rightarrow> bool" where
  "registers code (RegisterAsset code' name std jur val res gold hash holderAddress) =
     (code' = code)"
| "registers code (UpdateAssetValue code' newValueUsd) = False"
| "registers code (DeactivateAsset code') = False"
| "registers code (TransferOwnership newOwner) = False"

text \<open>
  The registry states that can arise: the state the constructor leaves, and every state
  a successful call by any account leads to from one of them.
\<close>

inductive reachable :: "Registry \<Rightarrow> bool" where
  deployed: "reachable (constructor deployer)"
| called: "reachable r \<Longrightarrow> exec sender now c r = Inr r' \<Longrightarrow> reachable r'"

definition activeRecordsValid :: "Registry \<Rightarrow> bool" where
  "activeRecordsValid r =
     (\<forall>code. isActive (assets r code) \<longrightarrow>
        0 < assetValueUsd (assets r code) \<and> holder (assets r code) \<noteq> 0)"

section \<open>QXMPProofOfReserve\<close>

text \<open>
  The coordinator's storage; the field \<^verbatim>\<open>value\<close> of \<^verbatim>\<open>Proof\<close> is
  \<open>proofValue\<close> and the coordinator's \<^verbatim>\<open>owner\<close> is \<open>por_owner\<close> here.
  A mapping entry never written reads as \<open>emptyProof\<close>. The coordinator's
  \<^verbatim>\<open>onlyOwner\<close>, constructor, \<^verbatim>\<open>registerAsset\<close> and
  \<^verbatim>\<open>transferOwnership\<close> carry the prefix \<open>por_\<close>, the registry's
  keep the source's names.
\<close>

record Proof =
  proofValue :: uint256
  timestamp :: uint256
  dataFeedId :: bytes32

record Coordinator =
  registry :: address
  latestProofs :: "bytes32 \<Rightarrow> Proof"
  por_owner :: address

definition emptyProof :: Proof where
  "emptyProof = \<lparr>proofValue = 0, timestamp = 0, dataFeedId = 0\<rparr>"

text \<open>
  The coordinator calls the registry contract at the address it holds. The registries
  deployed on the chain are a partial map from addresses; a call to an address with no
  registry reverts, and a revert of the called function reverts the caller
  (the source uses plain external calls, no \<^verbatim>\<open>try\<close>).
\<close>

type_synonym registries = "address \<Rightarrow> Registry option"

definition call_registry ::
  "registries \<Rightarrow> address \<Rightarrow> (Registry \<Rightarrow> error + Registry) \<Rightarrow> error + registries" where
  "call_registry regs a f =
     (case regs a of
        None \<Rightarrow> Inl NoContract
      | Some r \<Rightarrow> (case f r of Inl e \<Rightarrow> Inl e | Inr r' \<Rightarrow> Inr (regs(a \<mapsto> r'))))"

definition por_onlyOwner :: "address \<Rightarrow> Coordinator \<Rightarrow> error + 'a \<Rightarrow> error + 'a" where
  "por_onlyOwner sender c body = (if sender = por_owner c then body else Inl Unauthorized)"

definition por_constructor :: "address \<Rightarrow> address \<Rightarrow> error + Coordinator" where
  "por_constructor sender registryAddress =
     (if registryAddress = 0 then Inl InvalidReference
      else Inr \<lparr>registry = registryAddress, latestProofs = (\<lambda>c. emptyProof),
                por_owner = sender\<rparr>)"

text \<open>
  \<^verbatim>\<open>getOracleNumericValueFromTxMsg\<close> belongs to RedStone's
  \<^verbatim>\<open>MainDemoConsumerBase\<close>, outside this repository. It is the parameter
  \<open>oracleValueFromTxMsg\<close>: the value the signed payload of the transaction yields for
  a feed, or \<open>None\<close> when the base contract reverts. \<open>self\<close> is the coordinator's
  own address, the \<^verbatim>\<open>msg.sender\<close> the registry sees.
\<close>

definition submitProof ::
  "(bytes32 \<Rightarrow> uint256 option) \<Rightarrow> address \<Rightarrow> address \<Rightarrow> uint256 \<Rightarrow> bytes32 \<Rightarrow> bytes32 \<Rightarrow>
   Coordinator \<times> registries \<Rightarrow> error + Coordinator \<times> registries" where
  "submitProof oracleValueFromTxMsg self sender now code feed s =
     (case s of (c, regs) \<Rightarrow>
        por_onlyOwner sender c
          (case oracleValueFromTxMsg feed of
             None \<Rightarrow> Inl AttestationFailed
           | Some oracleValue \<Rightarrow>
               if \<not> 0 < oracleValue then Inl InvalidOracleValue
               else
                 let c' = c\<lparr>latestProofs := (latestProofs c)(code :=
                             \<lparr>proofValue = oracleValue, timestamp = now,
                              dataFeedId = feed\<rparr>)\<rparr>
                 in (case call_registry regs (registry c')
                            (updateAssetValue self now code oracleValue) of
                       Inl e \<Rightarrow> Inl e
                     | Inr regs' \<Rightarrow> Inr (c', regs'))))"

definition getLatestProof :: "Coordinator \<Rightarrow> bytes32 \<Rightarrow> Proof" where
  "getLatestProof c code = latestProofs c code"

definition getOracleValue :: "(bytes32 \<Rightarrow> uint256 option) \<Rightarrow> bytes32 \<Rightarrow> error + uint256" where
  "getOracleValue oracleValueFromTxMsg feed =
     (case oracleValueFromTxMsg feed of None \<Rightarrow> Inl AttestationFailed | Some v \<Rightarrow> Inr v)"

definition por_registerAsset ::
  "address \<Rightarrow> address \<Rightarrow> uint256 \<Rightarrow> bytes32 \<Rightarrow> string \<Rightarrow> string \<Rightarrow> string \<Rightarrow> uint256 \<Rightarrow>
   uint256 \<Rightarrow> uint256 \<Rightarrow> bytes32 \<Rightarrow> address \<Rightarrow> Coordinator \<times> registries \<Rightarrow>
   error + Coordinator \<times> registries" where
  "por_registerAsset self sender now code name std jur val res gold hash holderAddress s =
     (case s of (c, regs) \<Rightarrow>
        por_onlyOwner sender c
          (case call_registry regs (registry c)
                  (registerAsset self now code name std jur val res gold hash
                     holderAddress) of
             Inl e \<Rightarrow> Inl e
           | Inr regs' \<Rightarrow> Inr (c, regs')))"

definition updateRegistry :: "address \<Rightarrow> address \<Rightarrow> Coordinator \<Rightarrow> error + Coordinator" where
  "updateRegistry sender newRegistry c =
     por_onlyOwner sender c
       (if newRegistry = 0 then Inl InvalidReference
        else Inr (c\<lparr>registry := newRegistry\<rparr>))"

definition por_transferOwnership ::
  "address \<Rightarrow> address \<Rightarrow> Coordinator \<Rightarrow> error + Coordinator" where
  "por_transferOwnership sender newOwner c =
     por_onlyOwner sender c
       (if newOwner = 0 then Inl InvalidHolder else Inr (c\<lparr>por_owner := newOwner\<rparr>))"

text \<open>The mutating external functions of the coordinator, as transactions.\<close>

datatype por_call =
    SubmitProof bytes32 bytes32
  | PorRegisterAsset bytes32 string string string uint256 uint256 uint256 bytes32 address
  | UpdateRegistry address
  | PorTransferOwnership address

fun por_exec ::
  "(bytes32 \<Rightarrow> uint256 option) \<Rightarrow> address \<Rightarrow> address \<Rightarrow> uint256 \<Rightarrow> por_call \<Rightarrow>
   Coordinator \<times> registries \<Rightarrow> error + Coordinator \<times> registries" where
  "por_exec oracleValueFromTxMsg self sender now (SubmitProof code feed) s =
     submitProof oracleValueFromTxMsg self sender now code feed s"
| "por_exec oracleValueFromTxMsg self sender now
     (PorRegisterAsset code name std jur val res gold hash holderAddress) s =
     por_registerAsset self sender now code name std jur val res gold hash holderAddress s"
| "por_exec oracleValueFromTxMsg self sender now (UpdateRegistry newRegistry) s =
     (case updateRegistry sender newRegistry (fst s) of
        Inl e \<Rightarrow> Inl e
      | Inr c' \<Rightarrow> Inr (c', snd s))"
| "por_exec oracleValueFromTxMsg self sender now (PorTransferOwnership newOwner) s =
     (case por_transferOwnership sender newOwner (fst s) of
        Inl e \<Rightarrow> Inl e
      | Inr c' \<Rightarrow> Inr (c', snd s))"

text \<open>Whether a call of the coordinator is a forwarded registration of the given code.\<close>

fun por_registers :: "bytes32 \<Rightarrow> por_call \<Rightarrow> bool" where
  "por_registers code (PorRegisterAsset code' name std jur val res gold hash holderAddress) =
     (code' = code)"
| "por_registers code (SubmitProof code' feed) = False"
| "por_registers code (UpdateRegistry newRegistry) = False"
| "por_registers code (PorTransferOwnership newOwner) = False"

section \<open>Registration\<close>

text \<open>
  C3. For all valid inputs (the caller is the owner, no active record under the code,
  value > 0, holder non-zero), \<open>registerAsset\<close> succeeds, \<open>getAsset\<close> on the new
  state returns a record whose fields are exactly the registered arguments with
  \<open>isActive = True\<close> and \<open>lastUpdated = now\<close>, and \<open>getAssetCount\<close> has grown
  by exactly 1.
\<close>

theorem register_then_get:
  assumes "sender = owner r" and "\<not> isActive (assets r code)"
    and "0 < val" and "holderAddress \<noteq> 0"
  shows "\<exists>r'. registerAsset sender now code name std jur val res gold hash holderAddress r
                = Inr r'
            \<and> getAsset r' code =
                Inr \<lparr>assetCode = code, assetName = name, reportingStandard = std,
                     jurisdiction = jur, assetValueUsd = val, mineralResourcesMt = res,
                     goldOzInSitu = gold, reportHash = hash, lastUpdated = now,
                     holder = holderAddress, isActive = True\<rparr>
            \<and> getAssetCount r' = getAssetCount r + 1"
  using assms
  by (simp add: registerAsset_def onlyOwner_def getAsset_def assetExists_def
      getAssetCount_def)

theorem register_then_get_witness:
  "(1::address) = owner (constructor 1)
   \<and> \<not> isActive (assets (constructor 1) 7)
   \<and> (0::uint256) < 6800 \<and> (1::address) \<noteq> 0
   \<and> (\<exists>r'. registerAsset 1 100 7 ''AEM Gold Project'' ''NI 43-101'' ''ZA'' 6800 25 15 9 1
               (constructor 1) = Inr r'
          \<and> getAsset r' 7 =
              Inr \<lparr>assetCode = 7, assetName = ''AEM Gold Project'',
                   reportingStandard = ''NI 43-101'', jurisdiction = ''ZA'',
                   assetValueUsd = 6800, mineralResourcesMt = 25, goldOzInSitu = 15,
                   reportHash = 9, lastUpdated = 100, holder = 1, isActive = True\<rparr>
          \<and> getAssetCount r' = getAssetCount (constructor 1) + 1)"
proof -
  have a: "(1::address) = owner (constructor 1)"
    by (simp add: constructor_def)
  have b: "\<not> isActive (assets (constructor 1) 7)"
    by (simp add: constructor_def emptyAsset_def)
  have c: "(0::uint256) < 6800" by simp
  have d: "(1::address) \<noteq> 0" by simp
  from register_then_get [OF a b c d] a b c d show ?thesis by blast
qed

text \<open>
  C4. \<open>registerAsset\<close> fails with \<open>Unauthorized\<close> when the caller is not the
  owner, with \<open>AlreadyExists\<close> when an active record exists under the code, with
  \<open>InvalidValue\<close> when the value is not positive (for an unsigned value: zero) and
  with \<open>InvalidHolder\<close> when the holder is the zero address; the checks run in the
  order of the source's \<^verbatim>\<open>require\<close> statements, so each failure is named
  where the earlier checks pass. Under any of the four conditions the call fails and the
  registry state is as before: the record mapping, the enumeration and its count, and
  the owner.
\<close>

theorem register_failures:
  "(sender \<noteq> owner r \<longrightarrow>
      registerAsset sender now code name std jur val res gold hash holderAddress r
        = Inl Unauthorized)
   \<and> (sender = owner r \<and> isActive (assets r code) \<longrightarrow>
      registerAsset sender now code name std jur val res gold hash holderAddress r
        = Inl AlreadyExists)
   \<and> (sender = owner r \<and> \<not> isActive (assets r code) \<and> val \<le> 0 \<longrightarrow>
      registerAsset sender now code name std jur val res gold hash holderAddress r
        = Inl InvalidValue)
   \<and> (sender = owner r \<and> \<not> isActive (assets r code) \<and> 0 < val \<and> holderAddress = 0 \<longrightarrow>
      registerAsset sender now code name std jur val res gold hash holderAddress r
        = Inl InvalidHolder)
   \<and> (sender \<noteq> owner r \<or> isActive (assets r code) \<or> val \<le> 0 \<or> holderAddress = 0 \<longrightarrow>
        (\<exists>e. registerAsset sender now code name std jur val res gold hash holderAddress r
               = Inl e)
        \<and> state_after r
            (registerAsset sender now code name std jur val res gold hash holderAddress r)
           = r
        \<and> getAssetCount (state_after r
            (registerAsset sender now code name std jur val res gold hash holderAddress r))
           = getAssetCount r
        \<and> assets (state_after r
            (registerAsset sender now code name std jur val res gold hash holderAddress r))
           = assets r)"
  by (auto simp: registerAsset_def onlyOwner_def state_after_def)

theorem register_failures_witness:
  "registerAsset 2 100 7 ''A'' ''JORC'' ''ZA'' 68 25 15 9 1 (constructor 1) = Inl Unauthorized
   \<and> registerAsset 1 101 7 ''A'' ''JORC'' ''ZA'' 68 25 15 9 1
       (run [(1, 100, RegisterAsset 7 ''A'' ''JORC'' ''ZA'' 68 25 15 9 1)] (constructor 1))
       = Inl AlreadyExists
   \<and> registerAsset 1 100 7 ''A'' ''JORC'' ''ZA'' 0 25 15 9 1 (constructor 1) = Inl InvalidValue
   \<and> registerAsset 1 100 7 ''A'' ''JORC'' ''ZA'' 68 25 15 9 0 (constructor 1) = Inl InvalidHolder
   \<and> state_after (constructor 1)
       (registerAsset 1 100 7 ''A'' ''JORC'' ''ZA'' 0 25 15 9 1 (constructor 1)) = constructor 1
   \<and> getAssetCount (state_after (constructor 1)
       (registerAsset 1 100 7 ''A'' ''JORC'' ''ZA'' 68 25 15 9 0 (constructor 1))) = 0"
proof -
  let ?r0 = "constructor 1"
  let ?r1 = "run [(1, 100, RegisterAsset 7 ''A'' ''JORC'' ''ZA'' 68 25 15 9 1)] ?r0"
  have h1: "(2::address) \<noteq> owner ?r0"
    by (simp add: constructor_def)
  have h2: "1 = owner ?r1 \<and> isActive (assets ?r1 7)"
    by (simp add: constructor_def registerAsset_def onlyOwner_def state_after_def
        emptyAsset_def)
  have h3: "1 = owner ?r0 \<and> \<not> isActive (assets ?r0 7) \<and> (0::uint256) \<le> 0"
    by (simp add: constructor_def emptyAsset_def)
  have h4: "1 = owner ?r0 \<and> \<not> isActive (assets ?r0 7) \<and> (0::uint256) < 68
      \<and> (0::address) = 0"
    by (simp add: constructor_def emptyAsset_def)
  have cnt: "getAssetCount ?r0 = 0"
    by (simp add: constructor_def getAssetCount_def)
  from h1 register_failures [of 2 ?r0 100 7 "''A''" "''JORC''" "''ZA''" 68 25 15 9 1]
  have 1: "registerAsset 2 100 7 ''A'' ''JORC'' ''ZA'' 68 25 15 9 1 ?r0 = Inl Unauthorized"
    by blast
  from h2 register_failures [of 1 ?r1 101 7 "''A''" "''JORC''" "''ZA''" 68 25 15 9 1]
  have 2: "registerAsset 1 101 7 ''A'' ''JORC'' ''ZA'' 68 25 15 9 1 ?r1 = Inl AlreadyExists"
    by blast
  from h3 register_failures [of 1 ?r0 100 7 "''A''" "''JORC''" "''ZA''" 0 25 15 9 1]
  have 3: "registerAsset 1 100 7 ''A'' ''JORC'' ''ZA'' 0 25 15 9 1 ?r0 = Inl InvalidValue
      \<and> state_after ?r0 (registerAsset 1 100 7 ''A'' ''JORC'' ''ZA'' 0 25 15 9 1 ?r0) = ?r0"
    by blast
  from h4 register_failures [of 1 ?r0 100 7 "''A''" "''JORC''" "''ZA''" 68 25 15 9 0]
  have 4: "registerAsset 1 100 7 ''A'' ''JORC'' ''ZA'' 68 25 15 9 0 ?r0 = Inl InvalidHolder
      \<and> getAssetCount (state_after ?r0
            (registerAsset 1 100 7 ''A'' ''JORC'' ''ZA'' 68 25 15 9 0 ?r0))
          = getAssetCount ?r0"
    by blast
  have 5: "getAssetCount (state_after ?r0
            (registerAsset 1 100 7 ''A'' ''JORC'' ''ZA'' 68 25 15 9 0 ?r0)) = 0"
    by (rule trans [OF conjunct2 [OF 4] cnt])
  from 1 2 3 4 5 show ?thesis by blast
qed

text \<open>
  C9. \<open>registerAsset\<close> places no constraint on the report hash: on valid input it
  succeeds whatever the hash is, and after a registration with the all-zero hash
  \<open>verifyReportHash\<close> answers \<open>True\<close> to the all-zero candidate.
\<close>

theorem zero_report_hash_registers:
  assumes "sender = owner r" and "\<not> isActive (assets r code)"
    and "0 < val" and "holderAddress \<noteq> 0"
  shows "(\<exists>r'. registerAsset sender now code name std jur val res gold hash holderAddress r
                = Inr r')
       \<and> (\<exists>r'. registerAsset sender now code name std jur val res gold 0 holderAddress r
                = Inr r'
              \<and> verifyReportHash r' code 0 = Inr True)"
  using assms
  by (simp add: registerAsset_def onlyOwner_def verifyReportHash_def assetExists_def)

theorem zero_report_hash_registers_witness:
  "\<exists>r'. registerAsset 3 50 11 ''B'' ''GIA'' ''CA'' 1 0 0 0 4 (constructor 3) = Inr r'
       \<and> verifyReportHash r' 11 0 = Inr True"
proof -
  have a: "(3::address) = owner (constructor 3)"
    by (simp add: constructor_def)
  have b: "\<not> isActive (assets (constructor 3) 11)"
    by (simp add: constructor_def emptyAsset_def)
  have c: "(0::uint256) < 1" by simp
  have d: "(4::address) \<noteq> 0" by simp
  from zero_report_hash_registers [OF a b c d, of 50 "''B''" "''GIA''" "''CA''" 0 0 0]
  show ?thesis by blast
qed

text \<open>
  C10. The owner calls \<open>registerAsset\<close> for a code, \<open>deactivateAsset\<close> for it and
  \<open>registerAsset\<close> for it again, on a freshly deployed registry and with valid
  arguments: all three calls succeed, the second registration appends the code a second
  time, and afterwards \<open>getAssetCount\<close> is 2 and \<open>getAssetCodeByIndex\<close> returns
  the code at index 0 and at index 1. The enumeration holds a duplicate, and the count
  exceeds the number of distinct codes ever registered.
\<close>

theorem reregistration_duplicates_code:
  assumes "0 < val" and "holderAddress \<noteq> 0" and "0 < val'" and "holderAddress' \<noteq> 0"
  shows "\<exists>r1 r2 r3.
           registerAsset deployer t1 code name std jur val res gold hash holderAddress
             (constructor deployer) = Inr r1
         \<and> deactivateAsset deployer code r1 = Inr r2
         \<and> registerAsset deployer t3 code name' std' jur' val' res' gold' hash'
             holderAddress' r2 = Inr r3
         \<and> getAssetCount r3 = 2
         \<and> getAssetCodeByIndex r3 0 = Inr code
         \<and> getAssetCodeByIndex r3 1 = Inr code
         \<and> assetCodes r3 = [code, code]
         \<and> card (set (assetCodes r3)) < getAssetCount r3"
  using assms
  by (simp add: registerAsset_def onlyOwner_def deactivateAsset_def assetExists_def
      constructor_def emptyAsset_def getAssetCount_def getAssetCodeByIndex_def)

theorem reregistration_duplicates_code_witness:
  "\<exists>r1 r2 r3.
      registerAsset 1 100 7 ''A'' ''JORC'' ''ZA'' 68 25 15 9 1 (constructor 1) = Inr r1
    \<and> deactivateAsset 1 7 r1 = Inr r2
    \<and> registerAsset 1 300 7 ''A2'' ''LBMA'' ''AU'' 70 26 16 10 2 r2 = Inr r3
    \<and> getAssetCount r3 = 2
    \<and> getAssetCodeByIndex r3 0 = Inr 7
    \<and> getAssetCodeByIndex r3 1 = Inr 7"
proof -
  have a: "(0::uint256) < 68" and b: "(1::address) \<noteq> 0"
    and c: "(0::uint256) < 70" and d: "(2::address) \<noteq> 0"
    by simp_all
  from reregistration_duplicates_code [OF a b c d,
      of 1 100 7 "''A''" "''JORC''" "''ZA''" 25 15 9 300 "''A2''" "''LBMA''" "''AU''" 26 16 10]
  show ?thesis by blast
qed

section \<open>Reading and deactivating\<close>

text \<open>
  C6, as amended. For every code with an active record and every candidate hash \<open>h\<close>,
  \<open>verifyReportHash\<close> returns \<open>True\<close> iff \<open>h\<close> equals the stored report hash.
  An all-zero candidate never gives an error; it returns \<open>False\<close> unless the stored
  hash is itself all-zero. \<open>verifyReportHash\<close> fails with \<open>NotFound\<close> exactly
  when \<open>getAsset\<close> does, that is when the code has no record or an inactive one, and
  it fails in no other way.
\<close>

theorem verifyReportHash_equality:
  "(isActive (assets r code) \<longrightarrow>
      verifyReportHash r code h = Inr (h = reportHash (assets r code)))
   \<and> (isActive (assets r code) \<longrightarrow>
      verifyReportHash r code 0 = Inr (reportHash (assets r code) = 0))
   \<and> (verifyReportHash r code h = Inl NotFound \<longleftrightarrow> getAsset r code = Inl NotFound)
   \<and> (getAsset r code = Inl NotFound \<longleftrightarrow> \<not> isActive (assets r code))
   \<and> (\<forall>e. verifyReportHash r code h = Inl e \<longrightarrow> e = NotFound)"
  by (auto simp: verifyReportHash_def getAsset_def assetExists_def)

theorem verifyReportHash_equality_witness:
  "verifyReportHash
     (run [(1, 100, RegisterAsset 7 ''A'' ''JORC'' ''ZA'' 68 25 15 9 1)] (constructor 1)) 7 9
     = Inr True
   \<and> verifyReportHash
     (run [(1, 100, RegisterAsset 7 ''A'' ''JORC'' ''ZA'' 68 25 15 9 1)] (constructor 1)) 7 0
     = Inr False
   \<and> verifyReportHash (constructor 1) 7 9 = Inl NotFound
   \<and> getAsset (constructor 1) 7 = Inl NotFound"
proof -
  let ?r0 = "constructor 1"
  let ?r1 = "run [(1, 100, RegisterAsset 7 ''A'' ''JORC'' ''ZA'' 68 25 15 9 1)] ?r0"
  have act: "isActive (assets ?r1 7)" and stored: "reportHash (assets ?r1 7) = 9"
    by (simp_all add: constructor_def registerAsset_def onlyOwner_def state_after_def
        emptyAsset_def)
  have none: "\<not> isActive (assets ?r0 7)"
    by (simp add: constructor_def emptyAsset_def)
  have "\<exists>e. verifyReportHash ?r0 7 9 = Inl e"
    by (simp add: verifyReportHash_def assetExists_def none)
  with verifyReportHash_equality [of ?r0 7 9]
  have fails: "verifyReportHash ?r0 7 9 = Inl NotFound"
    by blast
  from act verifyReportHash_equality [of ?r1 7 9]
  have "verifyReportHash ?r1 7 9 = Inr (9 = reportHash (assets ?r1 7))"
    and "verifyReportHash ?r1 7 0 = Inr (reportHash (assets ?r1 7) = 0)"
    by blast+
  with stored have 1: "verifyReportHash ?r1 7 9 = Inr True"
    and 2: "verifyReportHash ?r1 7 0 = Inr False"
    by simp_all
  from fails verifyReportHash_equality [of ?r0 7 9]
  have 3: "getAsset ?r0 7 = Inl NotFound" by blast
  from 1 2 3 fails show ?thesis by blast
qed

text \<open>
  The claim C6 as stated fails: for an active record whose stored report hash is
  all-zero, the all-zero candidate returns \<open>True\<close>, not \<open>False\<close>.
\<close>

theorem zero_candidate_accepted:
  "isActive (assets
      (run [(1, 100, RegisterAsset 7 ''A'' ''JORC'' ''ZA'' 68 25 15 0 1)] (constructor 1)) 7)
   \<and> verifyReportHash
      (run [(1, 100, RegisterAsset 7 ''A'' ''JORC'' ''ZA'' 68 25 15 0 1)] (constructor 1)) 7 0
     = Inr True"
  by (simp add: constructor_def registerAsset_def onlyOwner_def state_after_def
      emptyAsset_def verifyReportHash_def assetExists_def)

text \<open>
  C7. A call of \<open>deactivateAsset\<close> succeeds only for a code with an active record,
  and after a successful call \<open>getAsset\<close> fails with \<open>NotFound\<close>,
  \<open>getAssetCount\<close> is as before, \<open>getAssetCodeByIndex\<close> answers every index
  as before (so the code is still found at its original index), the record differs from
  the old one in \<open>isActive\<close> only, and no other record, nor the enumeration, nor the
  owner has changed. For the owner and a code with an active record the call does succeed.
\<close>

theorem deactivate_frame:
  "(deactivateAsset sender code r = Inr r' \<longrightarrow>
      isActive (assets r code)
      \<and> getAsset r' code = Inl NotFound
      \<and> getAssetCount r' = getAssetCount r
      \<and> (\<forall>index. getAssetCodeByIndex r' index = getAssetCodeByIndex r index)
      \<and> assets r' code = (assets r code)\<lparr>isActive := False\<rparr>
      \<and> (\<forall>other. other \<noteq> code \<longrightarrow> assets r' other = assets r other)
      \<and> assetCodes r' = assetCodes r \<and> owner r' = owner r)
   \<and> (sender = owner r \<and> isActive (assets r code) \<longrightarrow>
      (\<exists>r'. deactivateAsset sender code r = Inr r'))"
  by (auto simp: deactivateAsset_def onlyOwner_def assetExists_def getAsset_def
      getAssetCount_def getAssetCodeByIndex_def split: if_splits)

theorem deactivate_frame_witness:
  "\<exists>r'. deactivateAsset 1 7
           (run [(1, 100, RegisterAsset 7 ''A'' ''JORC'' ''ZA'' 68 25 15 9 1),
                 (1, 101, RegisterAsset 8 ''B'' ''GIA'' ''CA'' 5 1 2 3 4)] (constructor 1))
          = Inr r'
       \<and> getAsset r' 7 = Inl NotFound
       \<and> getAssetCount r' = 2
       \<and> getAssetCodeByIndex r' 0 = Inr 7
       \<and> assetValueUsd (assets r' 7) = 68
       \<and> isActive (assets r' 8)"
proof -
  let ?r = "run [(1, 100, RegisterAsset 7 ''A'' ''JORC'' ''ZA'' 68 25 15 9 1),
                 (1, 101, RegisterAsset 8 ''B'' ''GIA'' ''CA'' 5 1 2 3 4)] (constructor 1)"
  have ab: "1 = owner ?r \<and> isActive (assets ?r 7)"
    by (simp add: constructor_def registerAsset_def onlyOwner_def state_after_def
        emptyAsset_def)
  have before: "getAssetCount ?r = 2" "getAssetCodeByIndex ?r 0 = Inr 7"
      "assetValueUsd (assets ?r 7) = 68" "isActive (assets ?r 8)"
    by (simp_all add: constructor_def registerAsset_def onlyOwner_def state_after_def
        emptyAsset_def getAssetCount_def getAssetCodeByIndex_def)
  from ab deactivate_frame [where sender = 1 and code = 7 and r = ?r, THEN conjunct2]
  obtain r' where ok: "deactivateAsset 1 7 ?r = Inr r'" by blast
  with deactivate_frame [where sender = 1 and code = 7 and r = ?r and r' = r',
      THEN conjunct1]
  have r': "getAsset r' 7 = Inl NotFound"
      "getAssetCount r' = getAssetCount ?r"
      "\<forall>index. getAssetCodeByIndex r' index = getAssetCodeByIndex ?r index"
      "assets r' 7 = (assets ?r 7)\<lparr>isActive := False\<rparr>"
      "\<forall>other. other \<noteq> 7 \<longrightarrow> assets r' other = assets ?r other"
    by blast+
  from r'(5) have "assets r' 8 = assets ?r 8" by simp
  with r' before have "getAssetCount r' = 2" "getAssetCodeByIndex r' 0 = Inr 7"
      "assetValueUsd (assets r' 7) = 68" "isActive (assets r' 8)"
    by simp_all
  with ok r'(1) show ?thesis by blast
qed

section \<open>Proof submission\<close>

lemma call_registry_Inr:
  "call_registry regs a0 f = Inr regs' \<Longrightarrow>
   \<exists>r r'. regs a0 = Some r \<and> f r = Inr r' \<and> regs' = regs(a0 \<mapsto> r')"
  by (auto simp: call_registry_def split: option.splits sum.splits)

lemma submitProof_Inr:
  assumes "submitProof orac self sender now code feed (co, regs) = Inr (co', regs')"
  shows "\<exists>v r r'. orac feed = Some v \<and> 0 < v \<and> sender = por_owner co
           \<and> co' = co\<lparr>latestProofs := (latestProofs co)(code :=
                      \<lparr>proofValue = v, timestamp = now, dataFeedId = feed\<rparr>)\<rparr>
           \<and> regs (registry co) = Some r
           \<and> updateAssetValue self now code v r = Inr r'
           \<and> regs' = regs(registry co \<mapsto> r')"
  using assms
  by (auto simp: submitProof_def por_onlyOwner_def Let_def
      split: option.splits sum.splits if_splits dest!: call_registry_Inr)

lemma por_registerAsset_Inr:
  assumes "por_registerAsset self sender now code name std jur val res gold hash h (co, regs)
             = Inr (co', regs')"
  shows "\<exists>r r'. sender = por_owner co \<and> co' = co
           \<and> regs (registry co) = Some r
           \<and> registerAsset self now code name std jur val res gold hash h r = Inr r'
           \<and> regs' = regs(registry co \<mapsto> r')"
  using assms
  by (auto simp: por_registerAsset_def por_onlyOwner_def
      split: sum.splits if_splits dest!: call_registry_Inr)

text \<open>
  C1. Let \<open>submitProof\<close> be called by the coordinator's owner with a verified value
  \<open>V > 0\<close>. On success the stored proof for the asset code is
  \<open>(V, now, feed)\<close> and the record of the code in the registry the coordinator points
  to has value \<open>V\<close>; the call succeeds whenever the registry's
  \<open>updateAssetValue\<close> does. If that sub-call fails (the registry has no active record
  under the code, or the coordinator is not its owner), or no registry is at the address,
  the whole call fails with the same failure and the state after it is the state before:
  the proof record of the code is exactly as it was.
\<close>

theorem submitProof_all_or_nothing:
  assumes "sender = por_owner co" and "oracleValueFromTxMsg feed = Some V" and "0 < V"
  shows "(\<forall>co' regs'. submitProof oracleValueFromTxMsg self sender now code feed (co, regs)
                        = Inr (co', regs') \<longrightarrow>
            latestProofs co' code = \<lparr>proofValue = V, timestamp = now, dataFeedId = feed\<rparr>
            \<and> getLatestProof co' code = latestProofs co' code
            \<and> registry co' = registry co
            \<and> (\<exists>r'. regs' (registry co) = Some r' \<and> assetValueUsd (assets r' code) = V))
       \<and> (\<forall>r r'. regs (registry co) = Some r \<and> updateAssetValue self now code V r = Inr r' \<longrightarrow>
            (\<exists>co' regs'. submitProof oracleValueFromTxMsg self sender now code feed (co, regs)
                        = Inr (co', regs')))
       \<and> (\<forall>r e. regs (registry co) = Some r \<and> updateAssetValue self now code V r = Inl e \<longrightarrow>
            submitProof oracleValueFromTxMsg self sender now code feed (co, regs) = Inl e
            \<and> latestProofs (fst (state_after (co, regs)
                 (submitProof oracleValueFromTxMsg self sender now code feed (co, regs)))) code
               = latestProofs co code
            \<and> state_after (co, regs)
                 (submitProof oracleValueFromTxMsg self sender now code feed (co, regs))
               = (co, regs))
       \<and> (regs (registry co) = None \<longrightarrow>
            submitProof oracleValueFromTxMsg self sender now code feed (co, regs)
              = Inl NoContract)"
proof (intro conjI allI impI)
  fix co' regs'
  assume ok: "submitProof oracleValueFromTxMsg self sender now code feed (co, regs)
                = Inr (co', regs')"
  from submitProof_Inr [OF ok] assms(2) obtain r r' where
      co': "co' = co\<lparr>latestProofs := (latestProofs co)(code :=
                      \<lparr>proofValue = V, timestamp = now, dataFeedId = feed\<rparr>)\<rparr>"
      and upd: "updateAssetValue self now code V r = Inr r'"
      and regs': "regs' = regs(registry co \<mapsto> r')"
    by auto
  from co' show "latestProofs co' code
      = \<lparr>proofValue = V, timestamp = now, dataFeedId = feed\<rparr>"
    by simp
  show "getLatestProof co' code = latestProofs co' code"
    by (simp add: getLatestProof_def)
  from co' show "registry co' = registry co" by simp
  from upd have "assetValueUsd (assets r' code) = V"
    by (auto simp: updateAssetValue_def onlyOwner_def assetExists_def split: if_splits)
  with regs' show "\<exists>r'. regs' (registry co) = Some r' \<and> assetValueUsd (assets r' code) = V"
    by simp
next
  fix r r'
  assume "regs (registry co) = Some r \<and> updateAssetValue self now code V r = Inr r'"
  with assms
  show "\<exists>co' regs'. submitProof oracleValueFromTxMsg self sender now code feed (co, regs)
                        = Inr (co', regs')"
    by (simp add: submitProof_def por_onlyOwner_def call_registry_def)
next
  fix r e
  assume "regs (registry co) = Some r \<and> updateAssetValue self now code V r = Inl e"
  with assms
  have fails: "submitProof oracleValueFromTxMsg self sender now code feed (co, regs) = Inl e"
    by (simp add: submitProof_def por_onlyOwner_def call_registry_def)
  then show "submitProof oracleValueFromTxMsg self sender now code feed (co, regs) = Inl e" .
  from fails show "latestProofs (fst (state_after (co, regs)
                 (submitProof oracleValueFromTxMsg self sender now code feed (co, regs)))) code
               = latestProofs co code"
    by (simp add: state_after_def)
  from fails show "state_after (co, regs)
                 (submitProof oracleValueFromTxMsg self sender now code feed (co, regs))
               = (co, regs)"
    by (simp add: state_after_def)
next
  assume "regs (registry co) = None"
  with assms
  show "submitProof oracleValueFromTxMsg self sender now code feed (co, regs) = Inl NoContract"
    by (simp add: submitProof_def por_onlyOwner_def call_registry_def)
qed

theorem submitProof_all_or_nothing_witness:
  "(\<exists>co' regs' r'.
      submitProof (\<lambda>feed. if feed = 3 then Some 70 else None) 9 1 200 7 3
        (\<lparr>registry = 5, latestProofs = (\<lambda>c. emptyProof), por_owner = 1\<rparr>,
         [5 \<mapsto> run [(9, 100, RegisterAsset 7 ''A'' ''JORC'' ''ZA'' 68 25 15 9 1)]
                 (constructor 9)])
        = Inr (co', regs')
      \<and> latestProofs co' 7 = \<lparr>proofValue = 70, timestamp = 200, dataFeedId = 3\<rparr>
      \<and> regs' 5 = Some r' \<and> assetValueUsd (assets r' 7) = 70)
   \<and> submitProof (\<lambda>feed. if feed = 3 then Some 70 else None) 9 1 200 7 3
        (\<lparr>registry = 5, latestProofs = (\<lambda>c. emptyProof), por_owner = 1\<rparr>,
         [5 \<mapsto> constructor 9])
        = Inl NotFound
   \<and> latestProofs (fst (state_after
        (\<lparr>registry = 5, latestProofs = (\<lambda>c. emptyProof), por_owner = 1\<rparr>,
         [5 \<mapsto> constructor 9])
        (submitProof (\<lambda>feed. if feed = 3 then Some 70 else None) 9 1 200 7 3
          (\<lparr>registry = 5, latestProofs = (\<lambda>c. emptyProof), por_owner = 1\<rparr>,
           [5 \<mapsto> constructor 9])))) 7
        = emptyProof
   \<and> submitProof (\<lambda>feed. if feed = 3 then Some 70 else None) 9 1 200 7 3
        (\<lparr>registry = 5, latestProofs = (\<lambda>c. emptyProof), por_owner = 1\<rparr>, Map.empty)
        = Inl NoContract"
proof -
  let ?orac = "(\<lambda>feed. if feed = 3 then Some 70 else None) :: bytes32 \<Rightarrow> uint256 option"
  let ?co = "\<lparr>registry = 5, latestProofs = (\<lambda>c. emptyProof), por_owner = 1\<rparr>"
  let ?R = "run [(9, 100, RegisterAsset 7 ''A'' ''JORC'' ''ZA'' 68 25 15 9 1)] (constructor 9)"
  let ?good = "[5 \<mapsto> ?R] :: registries"
  let ?bad = "[5 \<mapsto> constructor 9] :: registries"
  let ?none = "Map.empty :: registries"
  have a: "1 = por_owner ?co" by simp
  have b: "?orac 3 = Some 70" by simp
  have c: "(0::uint256) < 70" by simp
  note good = submitProof_all_or_nothing [where sender = 1 and co = ?co
      and oracleValueFromTxMsg = ?orac and feed = 3 and V = 70 and regs = ?good
      and self = 9 and now = 200 and code = 7, OF a b c]
  note bad = submitProof_all_or_nothing [where sender = 1 and co = ?co
      and oracleValueFromTxMsg = ?orac and feed = 3 and V = 70 and regs = ?bad
      and self = 9 and now = 200 and code = 7, OF a b c]
  note none = submitProof_all_or_nothing [where sender = 1 and co = ?co
      and oracleValueFromTxMsg = ?orac and feed = 3 and V = 70 and regs = ?none
      and self = 9 and now = 200 and code = 7, OF a b c]
  have at_good: "?good (registry ?co) = Some ?R" by simp
  have at_bad: "?bad (registry ?co) = Some (constructor 9)" by simp
  have at_none: "?none (registry ?co) = None" by simp
  have upd_good: "\<exists>r'. updateAssetValue 9 200 7 70 ?R = Inr r'"
    by (simp add: updateAssetValue_def onlyOwner_def assetExists_def constructor_def
        registerAsset_def state_after_def emptyAsset_def)
  have upd_bad: "updateAssetValue 9 200 7 70 (constructor 9) = Inl NotFound"
    by (simp add: updateAssetValue_def onlyOwner_def assetExists_def constructor_def
        emptyAsset_def)
  from good at_good upd_good obtain co' regs' where
      ok: "submitProof ?orac 9 1 200 7 3 (?co, ?good) = Inr (co', regs')"
    by blast
  with good obtain r' where
      "latestProofs co' 7 = \<lparr>proofValue = 70, timestamp = 200, dataFeedId = 3\<rparr>"
      "regs' (registry ?co) = Some r'" "assetValueUsd (assets r' 7) = 70"
    by blast
  with ok have 1: "\<exists>co' regs' r'.
      submitProof ?orac 9 1 200 7 3 (?co, ?good) = Inr (co', regs')
      \<and> latestProofs co' 7 = \<lparr>proofValue = 70, timestamp = 200, dataFeedId = 3\<rparr>
      \<and> regs' 5 = Some r' \<and> assetValueUsd (assets r' 7) = 70"
    by auto
  from bad at_bad upd_bad
  have 2: "submitProof ?orac 9 1 200 7 3 (?co, ?bad) = Inl NotFound"
    and "latestProofs (fst (state_after (?co, ?bad)
            (submitProof ?orac 9 1 200 7 3 (?co, ?bad)))) 7 = latestProofs ?co 7"
    by blast+
  then have 3: "latestProofs (fst (state_after (?co, ?bad)
            (submitProof ?orac 9 1 200 7 3 (?co, ?bad)))) 7 = emptyProof"
    by simp
  from none at_none
  have 4: "submitProof ?orac 9 1 200 7 3 (?co, ?none) = Inl NoContract"
    by blast
  from 1 2 3 4 show ?thesis by blast
qed

section \<open>Lifecycle\<close>

lemma exec_keeps_inactive:
  "\<not> isActive (assets r code) \<Longrightarrow> \<not> registers code c \<Longrightarrow>
   \<not> isActive (assets (state_after r (exec sender now c r)) code)"
  by (cases c)
    (auto simp: state_after_def updateAssetValue_def deactivateAsset_def
      transferOwnership_def registerAsset_def onlyOwner_def assetExists_def)

lemma run_keeps_inactive:
  "\<not> isActive (assets r code) \<Longrightarrow> \<forall>tx \<in> set txs. \<not> registers code (snd (snd tx)) \<Longrightarrow>
   \<not> isActive (assets (run txs r) code)"
proof (induction txs arbitrary: r)
  case Nil
  then show ?case by simp
next
  case (Cons tx txs)
  obtain sender now c where tx: "tx = (sender, now, c)"
    by (cases tx) auto
  from Cons.prems tx have "\<not> isActive (assets (state_after r (exec sender now c r)) code)"
    by (simp add: exec_keeps_inactive)
  with Cons.IH Cons.prems tx show ?case by simp
qed

text \<open>
  What a successful call of the coordinator does to the registries: it deploys and
  removes none, and a registry it changes has been changed by one successful call of the
  registry's own functions with the coordinator as sender; that call registers a code
  only when the coordinator's call was a registration of it.
\<close>

lemma por_exec_registry:
  assumes "por_exec orac self sender now pc (co, regs) = Inr (co', regs')"
  shows "(regs' a = None \<longleftrightarrow> regs a = None)
       \<and> (\<forall>r r'. regs a = Some r \<and> regs' a = Some r' \<longrightarrow>
            r' = r \<or> (\<exists>c. exec self now c r = Inr r'
                           \<and> (registers code c \<longrightarrow> por_registers code pc)))"
proof (cases pc)
  case (SubmitProof code' feed)
  with assms obtain v r0 r0' where
      u: "updateAssetValue self now code' v r0 = Inr r0'"
      and r0: "regs (registry co) = Some r0" and regs': "regs' = regs(registry co \<mapsto> r0')"
    using submitProof_Inr [of orac self sender now code' feed co regs co' regs'] by auto
  from u have "exec self now (UpdateAssetValue code' v) r0 = Inr r0'
      \<and> (registers code (UpdateAssetValue code' v) \<longrightarrow> por_registers code pc)"
    by simp
  then have "\<exists>c. exec self now c r0 = Inr r0' \<and> (registers code c \<longrightarrow> por_registers code pc)"
    by blast
  with r0 regs' show ?thesis by auto
next
  case (PorRegisterAsset code' name std jur val res gold hash h)
  with assms obtain r0 r0' where
      u: "registerAsset self now code' name std jur val res gold hash h r0 = Inr r0'"
      and r0: "regs (registry co) = Some r0" and regs': "regs' = regs(registry co \<mapsto> r0')"
    using por_registerAsset_Inr
      [of self sender now code' name std jur val res gold hash h co regs co' regs'] by auto
  from u PorRegisterAsset
  have "exec self now (RegisterAsset code' name std jur val res gold hash h) r0 = Inr r0'
      \<and> (registers code (RegisterAsset code' name std jur val res gold hash h)
           \<longrightarrow> por_registers code pc)"
    by simp
  then have "\<exists>c. exec self now c r0 = Inr r0' \<and> (registers code c \<longrightarrow> por_registers code pc)"
    by blast
  with r0 regs' show ?thesis by auto
next
  case (UpdateRegistry newRegistry)
  with assms show ?thesis
    by (auto split: sum.splits)
next
  case (PorTransferOwnership newOwner)
  with assms show ?thesis
    by (auto split: sum.splits)
qed

text \<open>
  C2, as amended. A deactivated record is returned to active by no sequence of exposed
  operations that holds no registration of its code: \<open>updateAssetValue\<close>,
  \<open>deactivateAsset\<close>, \<open>transferOwnership\<close>, registrations of other codes and
  the coordinator's calls other than a registration of the code leave it inactive. An
  owner call of \<open>registerAsset\<close> for the code with a positive value and a non-zero
  holder succeeds on a deactivated record and makes it active again;
  \<open>registerAsset\<close> fails with \<open>AlreadyExists\<close> only while the record under the
  code is active.
\<close>

theorem inactive_until_registered_again:
  "(\<not> isActive (assets r code) \<and> (\<forall>tx \<in> set txs. \<not> registers code (snd (snd tx))) \<longrightarrow>
      \<not> isActive (assets (run txs r) code))
   \<and> (regs a = Some r \<and> \<not> isActive (assets r code) \<and> \<not> por_registers code pc
        \<and> por_exec orac self caller t pc (co, regs) = Inr (co', regs') \<longrightarrow>
      (\<exists>r'. regs' a = Some r' \<and> \<not> isActive (assets r' code)))
   \<and> (sender = owner r \<and> \<not> isActive (assets r code) \<and> 0 < val \<and> holderAddress \<noteq> 0 \<longrightarrow>
      (\<exists>r'. registerAsset sender now code name std jur val res gold hash holderAddress r
               = Inr r' \<and> isActive (assets r' code)))
   \<and> (registerAsset sender now code name std jur val res gold hash holderAddress r
        = Inl AlreadyExists \<longrightarrow> isActive (assets r code))"
proof (intro conjI impI)
  assume "\<not> isActive (assets r code) \<and> (\<forall>tx \<in> set txs. \<not> registers code (snd (snd tx)))"
  then show "\<not> isActive (assets (run txs r) code)"
    by (simp add: run_keeps_inactive)
next
  assume h: "regs a = Some r \<and> \<not> isActive (assets r code) \<and> \<not> por_registers code pc
        \<and> por_exec orac self caller t pc (co, regs) = Inr (co', regs')"
  then have step: "(regs' a = None \<longleftrightarrow> regs a = None)
       \<and> (\<forall>r r'. regs a = Some r \<and> regs' a = Some r' \<longrightarrow>
            r' = r \<or> (\<exists>c. exec self t c r = Inr r'
                           \<and> (registers code c \<longrightarrow> por_registers code pc)))"
    using por_exec_registry [of orac self caller t pc co regs co' regs' a code] by blast
  with h obtain r' where r': "regs' a = Some r'" by auto
  with step h have "r' = r \<or> (\<exists>c. exec self t c r = Inr r' \<and> \<not> registers code c)"
    by blast
  then have "\<not> isActive (assets r' code)"
  proof
    assume "r' = r"
    with h show ?thesis by simp
  next
    assume "\<exists>c. exec self t c r = Inr r' \<and> \<not> registers code c"
    then obtain c where c: "exec self t c r = Inr r'" "\<not> registers code c" by blast
    with h exec_keeps_inactive [of r code c self t] show ?thesis
      by (simp add: state_after_def)
  qed
  with r' show "\<exists>r'. regs' a = Some r' \<and> \<not> isActive (assets r' code)" by blast
next
  assume "sender = owner r \<and> \<not> isActive (assets r code) \<and> 0 < val \<and> holderAddress \<noteq> 0"
  then show "\<exists>r'. registerAsset sender now code name std jur val res gold hash holderAddress r
               = Inr r' \<and> isActive (assets r' code)"
    by (simp add: registerAsset_def onlyOwner_def)
next
  assume "registerAsset sender now code name std jur val res gold hash holderAddress r
        = Inl AlreadyExists"
  then show "isActive (assets r code)"
    by (auto simp: registerAsset_def onlyOwner_def split: if_splits)
qed

theorem inactive_until_registered_again_witness:
  "\<not> isActive (assets
       (run [(1, 102, UpdateAssetValue 7 70), (1, 103, DeactivateAsset 7),
             (1, 104, RegisterAsset 8 ''B'' ''GIA'' ''CA'' 5 1 2 3 4),
             (1, 105, TransferOwnership 2)]
         (run [(1, 100, RegisterAsset 7 ''A'' ''JORC'' ''ZA'' 68 25 15 9 1),
               (1, 101, DeactivateAsset 7)] (constructor 1))) 7)
   \<and> (\<exists>co' regs' r'.
        por_exec (\<lambda>feed. Some 70) 9 1 200 (PorRegisterAsset 8 ''B'' ''GIA'' ''CA'' 5 1 2 3 4)
          (\<lparr>registry = 5, latestProofs = (\<lambda>c. emptyProof), por_owner = 1\<rparr>,
           [5 \<mapsto> run [(9, 100, RegisterAsset 7 ''A'' ''JORC'' ''ZA'' 68 25 15 9 1),
                       (9, 101, DeactivateAsset 7)] (constructor 9)])
          = Inr (co', regs')
        \<and> regs' 5 = Some r' \<and> \<not> isActive (assets r' 7))
   \<and> (\<exists>r'. registerAsset 1 102 7 ''A'' ''JORC'' ''ZA'' 70 25 15 9 1
              (run [(1, 100, RegisterAsset 7 ''A'' ''JORC'' ''ZA'' 68 25 15 9 1),
                    (1, 101, DeactivateAsset 7)] (constructor 1)) = Inr r'
          \<and> isActive (assets r' 7))
   \<and> registerAsset 1 101 7 ''A'' ''JORC'' ''ZA'' 70 25 15 9 1
        (run [(1, 100, RegisterAsset 7 ''A'' ''JORC'' ''ZA'' 68 25 15 9 1)] (constructor 1))
        = Inl AlreadyExists
   \<and> isActive (assets
        (run [(1, 100, RegisterAsset 7 ''A'' ''JORC'' ''ZA'' 68 25 15 9 1)] (constructor 1)) 7)"
proof -
  let ?reg = "RegisterAsset 7 ''A'' ''JORC'' ''ZA'' 68 25 15 9 1"
  let ?r1 = "run [(1, 100, ?reg)] (constructor 1)"
  let ?r2 = "run [(1, 100, ?reg), (1, 101, DeactivateAsset 7)] (constructor 1)"
  let ?R2 = "run [(9, 100, ?reg), (9, 101, DeactivateAsset 7)] (constructor 9)"
  let ?txs = "[(1, 102, UpdateAssetValue 7 70), (1, 103, DeactivateAsset 7),
             (1, 104, RegisterAsset 8 ''B'' ''GIA'' ''CA'' 5 1 2 3 4),
             (1, 105, TransferOwnership 2)] :: (address \<times> uint256 \<times> call) list"
  let ?co = "\<lparr>registry = 5, latestProofs = (\<lambda>c. emptyProof), por_owner = 1\<rparr>"
  let ?regs = "[5 \<mapsto> ?R2] :: registries"
  let ?pc = "PorRegisterAsset 8 ''B'' ''GIA'' ''CA'' 5 1 2 3 4"
  let ?orac = "(\<lambda>feed. Some 70) :: bytes32 \<Rightarrow> uint256 option"
  have inactive: "\<not> isActive (assets ?r2 7)" "\<not> isActive (assets ?R2 7)"
    and owner2: "1 = owner ?r2"
    by (simp_all add: constructor_def registerAsset_def deactivateAsset_def onlyOwner_def
        assetExists_def state_after_def emptyAsset_def)
  have txs: "\<forall>tx \<in> set ?txs. \<not> registers 7 (snd (snd tx))" by simp
  have pc: "\<not> por_registers 7 ?pc" by simp
  have at: "?regs 5 = Some ?R2" by simp
  have por: "\<exists>co' regs'. por_exec ?orac 9 1 200 ?pc (?co, ?regs) = Inr (co', regs')"
    by (simp add: por_registerAsset_def por_onlyOwner_def call_registry_def
        constructor_def registerAsset_def deactivateAsset_def onlyOwner_def
        assetExists_def state_after_def emptyAsset_def)
  have dup: "registerAsset 1 101 7 ''A'' ''JORC'' ''ZA'' 70 25 15 9 1 ?r1 = Inl AlreadyExists"
    by (simp add: constructor_def registerAsset_def onlyOwner_def state_after_def
        emptyAsset_def)
  have valid: "(0::uint256) < 70 \<and> (1::address) \<noteq> 0" by simp
  from inactive(1) txs
    inactive_until_registered_again [where r = ?r2 and code = 7 and txs = ?txs,
      THEN conjunct1]
  have 1: "\<not> isActive (assets (run ?txs ?r2) 7)" by blast
  from por obtain co' regs' where
      ok: "por_exec ?orac 9 1 200 ?pc (?co, ?regs) = Inr (co', regs')" by blast
  from at inactive(2) pc ok
    inactive_until_registered_again [where r = ?R2 and code = 7 and regs = ?regs
      and a = 5 and pc = ?pc and orac = ?orac and self = 9 and caller = 1 and t = 200
      and co = ?co and co' = co' and regs' = regs',
      THEN conjunct2, THEN conjunct1]
  have "\<exists>r'. regs' 5 = Some r' \<and> \<not> isActive (assets r' 7)" by blast
  with ok have 2: "\<exists>co' regs' r'. por_exec ?orac 9 1 200 ?pc (?co, ?regs) = Inr (co', regs')
        \<and> regs' 5 = Some r' \<and> \<not> isActive (assets r' 7)"
    by blast
  from owner2 inactive(1) valid
    inactive_until_registered_again [where r = ?r2 and code = 7 and sender = 1
      and val = 70 and holderAddress = 1 and now = 102 and name = "''A''"
      and std = "''JORC''" and jur = "''ZA''" and res = 25 and gold = 15 and hash = 9,
      THEN conjunct2, THEN conjunct2, THEN conjunct1]
  have 3: "\<exists>r'. registerAsset 1 102 7 ''A'' ''JORC'' ''ZA'' 70 25 15 9 1 ?r2 = Inr r'
          \<and> isActive (assets r' 7)"
    by blast
  from dup
    inactive_until_registered_again [where r = ?r1 and code = 7 and sender = 1
      and val = 70 and holderAddress = 1 and now = 101 and name = "''A''"
      and std = "''JORC''" and jur = "''ZA''" and res = 25 and gold = 15 and hash = 9,
      THEN conjunct2, THEN conjunct2, THEN conjunct2]
  have 4: "isActive (assets ?r1 7)" by blast
  from 1 2 3 dup 4 show ?thesis by blast
qed

text \<open>
  The claim C2 as stated fails: after the owner has registered and deactivated a code,
  an owner call of \<open>registerAsset\<close> for the same code with valid arguments does not
  fail, and the record under the code is active again.
\<close>

theorem deactivated_code_reregistered:
  "\<not> isActive (assets
       (run [(1, 100, RegisterAsset 7 ''A'' ''JORC'' ''ZA'' 68 25 15 9 1),
             (1, 101, DeactivateAsset 7)] (constructor 1)) 7)
   \<and> \<not> isl (registerAsset 1 102 7 ''A'' ''JORC'' ''ZA'' 68 25 15 9 1
       (run [(1, 100, RegisterAsset 7 ''A'' ''JORC'' ''ZA'' 68 25 15 9 1),
             (1, 101, DeactivateAsset 7)] (constructor 1)))
   \<and> isActive (assets
       (run [(1, 100, RegisterAsset 7 ''A'' ''JORC'' ''ZA'' 68 25 15 9 1),
             (1, 101, DeactivateAsset 7),
             (1, 102, RegisterAsset 7 ''A'' ''JORC'' ''ZA'' 68 25 15 9 1)] (constructor 1)) 7)"
  by (simp add: constructor_def registerAsset_def deactivateAsset_def onlyOwner_def
      assetExists_def state_after_def emptyAsset_def)

section \<open>Invariant of the active records\<close>

lemma exec_preserves_valid:
  "activeRecordsValid r \<Longrightarrow> exec sender now c r = Inr r' \<Longrightarrow> activeRecordsValid r'"
  by (cases c)
    (auto simp: activeRecordsValid_def updateAssetValue_def deactivateAsset_def
      transferOwnership_def registerAsset_def onlyOwner_def assetExists_def
      split: if_splits)

lemma constructor_valid: "activeRecordsValid (constructor deployer)"
  by (simp add: activeRecordsValid_def constructor_def emptyAsset_def)

lemma reachable_valid: "reachable r \<Longrightarrow> activeRecordsValid r"
  by (induction rule: reachable.induct) (auto intro: constructor_valid exec_preserves_valid)

text \<open>
  C5. In every reachable registry state every active record has a value > 0 and a
  non-zero holder. The invariant is preserved by every successful call of the registry
  (\<open>registerAsset\<close>, \<open>updateAssetValue\<close>, \<open>deactivateAsset\<close>,
  \<open>transferOwnership\<close>, from any sender) and, for every registry on the chain, by
  every successful call of the coordinator (\<open>submitProof\<close>, its forwarded
  registration, \<open>updateRegistry\<close> and its own \<open>transferOwnership\<close>).
\<close>

theorem active_records_valid:
  "(reachable r \<longrightarrow> activeRecordsValid r)
   \<and> (activeRecordsValid r \<and> exec sender now c r = Inr r' \<longrightarrow> activeRecordsValid r')
   \<and> ((\<forall>a r0. regs a = Some r0 \<longrightarrow> activeRecordsValid r0)
        \<and> por_exec orac self caller t pc (co, regs) = Inr (co', regs') \<longrightarrow>
      (\<forall>a r0. regs' a = Some r0 \<longrightarrow> activeRecordsValid r0))"
proof (intro conjI impI allI)
  assume "reachable r"
  then show "activeRecordsValid r" by (rule reachable_valid)
next
  assume "activeRecordsValid r \<and> exec sender now c r = Inr r'"
  then show "activeRecordsValid r'" by (blast intro: exec_preserves_valid)
next
  fix a r0
  assume h: "(\<forall>a r0. regs a = Some r0 \<longrightarrow> activeRecordsValid r0)
        \<and> por_exec orac self caller t pc (co, regs) = Inr (co', regs')"
    and r0: "regs' a = Some r0"
  from h have step: "(regs' a = None \<longleftrightarrow> regs a = None)
       \<and> (\<forall>r r'. regs a = Some r \<and> regs' a = Some r' \<longrightarrow>
            r' = r \<or> (\<exists>c. exec self t c r = Inr r'
                           \<and> (registers 0 c \<longrightarrow> por_registers 0 pc)))"
    using por_exec_registry [of orac self caller t pc co regs co' regs' a 0] by blast
  with r0 obtain r1 where r1: "regs a = Some r1" by auto
  with h have v: "activeRecordsValid r1" by blast
  from step r0 r1 have "r0 = r1 \<or> (\<exists>c. exec self t c r1 = Inr r0)" by blast
  with v show "activeRecordsValid r0" by (blast intro: exec_preserves_valid)
qed

theorem active_records_valid_witness:
  "activeRecordsValid
     (run [(1, 100, RegisterAsset 7 ''A'' ''JORC'' ''ZA'' 68 25 15 9 1)] (constructor 1))
   \<and> 0 < assetValueUsd (assets
     (run [(1, 100, RegisterAsset 7 ''A'' ''JORC'' ''ZA'' 68 25 15 9 1)] (constructor 1)) 7)
   \<and> holder (assets
     (run [(1, 100, RegisterAsset 7 ''A'' ''JORC'' ''ZA'' 68 25 15 9 1)] (constructor 1)) 7)
       \<noteq> 0
   \<and> activeRecordsValid
     (run [(1, 100, RegisterAsset 7 ''A'' ''JORC'' ''ZA'' 68 25 15 9 1),
           (1, 101, UpdateAssetValue 7 70)] (constructor 1))
   \<and> (\<exists>co' regs' r'.
        por_exec (\<lambda>feed. Some 70) 9 1 200 (SubmitProof 7 3)
          (\<lparr>registry = 5, latestProofs = (\<lambda>c. emptyProof), por_owner = 1\<rparr>,
           [5 \<mapsto> run [(9, 100, RegisterAsset 7 ''A'' ''JORC'' ''ZA'' 68 25 15 9 1)]
                   (constructor 9)])
          = Inr (co', regs')
        \<and> regs' 5 = Some r' \<and> activeRecordsValid r')"
proof -
  let ?reg = "RegisterAsset 7 ''A'' ''JORC'' ''ZA'' 68 25 15 9 1"
  let ?r1 = "run [(1, 100, ?reg)] (constructor 1)"
  let ?r2 = "run [(1, 100, ?reg), (1, 101, UpdateAssetValue 7 70)] (constructor 1)"
  let ?R = "run [(9, 100, ?reg)] (constructor 9)"
  let ?orac = "(\<lambda>feed. Some 70) :: bytes32 \<Rightarrow> uint256 option"
  let ?co = "\<lparr>registry = 5, latestProofs = (\<lambda>c. emptyProof), por_owner = 1\<rparr>"
  let ?regs = "[5 \<mapsto> ?R] :: registries"
  have e1: "exec 1 100 ?reg (constructor 1) = Inr ?r1"
    and e2: "exec 1 101 (UpdateAssetValue 7 70) ?r1 = Inr ?r2"
    and e3: "exec 9 100 ?reg (constructor 9) = Inr ?R"
    by (simp_all add: constructor_def registerAsset_def updateAssetValue_def onlyOwner_def
        assetExists_def state_after_def emptyAsset_def)
  have active: "isActive (assets ?r1 7)"
    by (simp add: constructor_def registerAsset_def onlyOwner_def state_after_def
        emptyAsset_def)
  have reach1: "reachable ?r1"
    by (rule reachable.called [OF reachable.deployed e1])
  have reachR: "reachable ?R"
    by (rule reachable.called [OF reachable.deployed e3])
  from reach1 active_records_valid [where r = ?r1, THEN conjunct1]
  have 1: "activeRecordsValid ?r1" by blast
  with active have 2: "0 < assetValueUsd (assets ?r1 7) \<and> holder (assets ?r1 7) \<noteq> 0"
    unfolding activeRecordsValid_def by blast
  from 1 e2
    active_records_valid [where r = ?r1 and sender = 1 and now = 101
      and c = "UpdateAssetValue 7 70" and r' = ?r2, THEN conjunct2, THEN conjunct1]
  have 3: "activeRecordsValid ?r2" by blast
  from reachR active_records_valid [where r = ?R, THEN conjunct1]
  have "activeRecordsValid ?R" by blast
  then have all: "\<forall>a r0. ?regs a = Some r0 \<longrightarrow> activeRecordsValid r0"
    by (simp split: if_splits)
  have "\<exists>co' regs'. por_exec ?orac 9 1 200 (SubmitProof 7 3) (?co, ?regs) = Inr (co', regs')"
    by (simp add: submitProof_def por_onlyOwner_def call_registry_def constructor_def
        registerAsset_def updateAssetValue_def onlyOwner_def assetExists_def state_after_def
        emptyAsset_def)
  then obtain co' regs' where
      ok: "por_exec ?orac 9 1 200 (SubmitProof 7 3) (?co, ?regs) = Inr (co', regs')"
    by blast
  then have "submitProof ?orac 9 1 200 7 3 (?co, ?regs) = Inr (co', regs')" by simp
  from submitProof_Inr [OF this] obtain r' where r': "regs' 5 = Some r'" by auto
  from all ok
    active_records_valid [where regs = ?regs and orac = ?orac and self = 9 and caller = 1
      and t = 200 and pc = "SubmitProof 7 3" and co = ?co and co' = co' and regs' = regs',
      THEN conjunct2, THEN conjunct2]
  have "\<forall>a r0. regs' a = Some r0 \<longrightarrow> activeRecordsValid r0" by blast
  with r' have "activeRecordsValid r'" by blast
  with ok r' have 4: "\<exists>co' regs' r'.
        por_exec ?orac 9 1 200 (SubmitProof 7 3) (?co, ?regs) = Inr (co', regs')
        \<and> regs' 5 = Some r' \<and> activeRecordsValid r'"
    by blast
  from 1 2 3 4 show ?thesis by blast
qed

section \<open>Ownership\<close>




end
